theory Spec2Isabelle
  imports Main
begin

section \<open>Python values\<close>

text \<open>
  The servers \<^verbatim>\<open>prismhr_mcp_server.py\<close> and \<^verbatim>\<open>small_prismhr_mcp_server.py\<close> relay calls
  to the PrismHR REST interface. The values that flow through them are the results of
  \<^verbatim>\<open>json.loads\<close> and the dictionaries the tools return. A Python \<^verbatim>\<open>str\<close> is modelled by the
  bytes of its UTF-8 encoding, a \<^verbatim>\<open>dict\<close> by an association list in insertion order with
  distinct keys, \<^verbatim>\<open>None\<close> by \<open>JNull\<close>, and a float by a mantissa and a binary exponent
  (the value \<open>m * 2 ^ e\<close>; the infinities and NaN, which \<^verbatim>\<open>json.loads\<close> also accepts, are
  left out: the servers only test a float for truth, and they are true like any non-zero
  float).
\<close>

datatype json =
    JNull
  | JBool bool
  | JInt int
  | JFloat int int
  | JStr string
  | JArr "json list"
  | JObj "(string \<times> json) list"

text \<open>Python's truth test, as \<^verbatim>\<open>if not session_id\<close> applies it.\<close>

fun truthy :: "json \<Rightarrow> bool" where
  "truthy JNull = False"
| "truthy (JBool b) = b"
| "truthy (JInt n) = (n \<noteq> 0)"
| "truthy (JFloat m e) = (m \<noteq> 0)"
| "truthy (JStr s) = (s \<noteq> [])"
| "truthy (JArr xs) = (xs \<noteq> [])"
| "truthy (JObj kvs) = (kvs \<noteq> [])"

text \<open>
  Exceptions are values. The type holds instances of subclasses of \<^verbatim>\<open>Exception\<close>, the
  class every handler in the servers names; each carries the text \<^verbatim>\<open>str(e)\<close> gives.
\<close>

datatype exn =
    HTTPError string
  | URLError string
  | TimeoutError string
  | JSONDecodeError string
  | UnicodeDecodeError string
  | AttributeError string
  | TypeError string
  | ValueError string
  | OtherException string

fun str_exn :: "exn \<Rightarrow> string" where
  "str_exn (HTTPError m) = m"
| "str_exn (URLError m) = m"
| "str_exn (TimeoutError m) = m"
| "str_exn (JSONDecodeError m) = m"
| "str_exn (UnicodeDecodeError m) = m"
| "str_exn (AttributeError m) = m"
| "str_exn (TypeError m) = m"
| "str_exn (ValueError m) = m"
| "str_exn (OtherException m) = m"

fun py_type_name :: "json \<Rightarrow> string" where
  "py_type_name JNull = ''NoneType''"
| "py_type_name (JBool b) = ''bool''"
| "py_type_name (JInt n) = ''int''"
| "py_type_name (JFloat m e) = ''float''"
| "py_type_name (JStr s) = ''str''"
| "py_type_name (JArr xs) = ''list''"
| "py_type_name (JObj kvs) = ''dict''"

definition squote :: "string \<Rightarrow> string" where
  "squote s = CHR 0x27 # s @ [CHR 0x27]"

text \<open>
  \<^verbatim>\<open>obj.get(key)\<close>: on a dict the value or \<^verbatim>\<open>None\<close>; any other result of \<^verbatim>\<open>json.loads\<close>
  has no attribute \<^verbatim>\<open>get\<close>.
\<close>

fun py_get :: "json \<Rightarrow> string \<Rightarrow> exn + json" where
  "py_get (JObj kvs) k = Inr (case map_of kvs k of None \<Rightarrow> JNull | Some v \<Rightarrow> v)"
| "py_get j k =
     Inl (AttributeError (squote (py_type_name j) @ '' object has no attribute '' @ squote ''get''))"

text \<open>\<^verbatim>\<open>params[key] = value\<close> on an insertion-ordered dict.\<close>

fun dict_set :: "('k \<times> 'v) list \<Rightarrow> 'k \<Rightarrow> 'v \<Rightarrow> ('k \<times> 'v) list" where
  "dict_set [] k v = [(k, v)]"
| "dict_set ((k', v') # ps) k v =
     (if k' = k then (k', v) # ps else (k', v') # dict_set ps k v)"

section \<open>The environment and the libraries\<close>

text \<open>\<^verbatim>\<open>os.getenv(name)\<close> and \<^verbatim>\<open>os.getenv(name, default)\<close> over the process environment.\<close>

type_synonym environ = "string \<Rightarrow> string option"

definition getenv :: "environ \<Rightarrow> string \<Rightarrow> string option" where
  "getenv env name = env name"

definition getenv_default :: "environ \<Rightarrow> string \<Rightarrow> string \<Rightarrow> string" where
  "getenv_default env name dflt = (case env name of None \<Rightarrow> dflt | Some v \<Rightarrow> v)"

text \<open>The truth test of \<^verbatim>\<open>all([username, password, peo_id])\<close> on what \<^verbatim>\<open>os.getenv\<close> returned.\<close>

fun truthy_str :: "string option \<Rightarrow> bool" where
  "truthy_str None = False"
| "truthy_str (Some s) = (s \<noteq> [])"

definition py_all :: "string option list \<Rightarrow> bool" where
  "py_all xs = list_all truthy_str xs"

text \<open>
  A \<^verbatim>\<open>urllib.request.Request\<close>: its URL, its body (\<^verbatim>\<open>data\<close>; a request with a body is a POST)
  and its headers. The tools put the session token, whatever JSON value it is, into a header.
\<close>

record request =
  req_url :: string
  req_data :: "string option"
  req_headers :: "(string \<times> json) list"

text \<open>
  The behaviour of the libraries and of the upstream service is a parameter of the model:
  \<^item> \<open>request_error u\<close> is the exception the constructor \<^verbatim>\<open>urllib.request.Request(u, ...)\<close>
    raises, if any (\<^verbatim>\<open>ValueError\<close> for a URL without a scheme);
  \<^item> \<open>urlopen r t\<close> is what \<^verbatim>\<open>urllib.request.urlopen(r, timeout=t)\<close> followed by
    \<^verbatim>\<open>response.read()\<close> yields: an exception or the bytes of the body;
  \<^item> \<open>json_loads b\<close> is \<^verbatim>\<open>json.loads(b.decode('utf-8'))\<close>: an exception or the parsed value.
  The second component of a run is the list of requests handed to \<open>urlopen\<close>, in order.
  Writing to the log is not modelled: it neither returns a value nor reaches the network.
\<close>

record lib =
  request_error :: "string \<Rightarrow> exn option"
  urlopen :: "request \<Rightarrow> nat \<Rightarrow> exn + string"
  json_loads :: "string \<Rightarrow> exn + json"

type_synonym 'a run = "(exn + 'a) \<times> request list"

section \<open>urllib.parse\<close>

definition always_safe :: "char \<Rightarrow> bool" where
  "always_safe c \<longleftrightarrow>
     c \<in> set ''ABCDEFGHIJKLMNOPQRSTUVWXYZabcdefghijklmnopqrstuvwxyz0123456789_.-~''"

definition hex_digit :: "nat \<Rightarrow> char" where
  "hex_digit n = ''0123456789ABCDEF'' ! (n mod 16)"

definition pct :: "char \<Rightarrow> string" where
  "pct c = [CHR ''%'', hex_digit (of_char c div 16), hex_digit (of_char c mod 16)]"

text \<open>\<^verbatim>\<open>quote(string, safe)\<close>: every byte outside the safe set becomes \<^verbatim>\<open>%XX\<close>.\<close>

definition quote :: "string \<Rightarrow> string \<Rightarrow> string" where
  "quote s safe = concat (map (\<lambda>c. if always_safe c \<or> c \<in> set safe then [c] else pct c) s)"

text \<open>
  \<^verbatim>\<open>quote_plus(string)\<close>: without a space it is \<^verbatim>\<open>quote(string, '')\<close>, otherwise the spaces
  are kept by \<^verbatim>\<open>quote(string, ' ')\<close> and then replaced by \<^verbatim>\<open>+\<close>.
\<close>

definition quote_plus :: "string \<Rightarrow> string" where
  "quote_plus s =
     (if CHR '' '' \<notin> set s then quote s []
      else map (\<lambda>c. if c = CHR '' '' then CHR ''+'' else c) (quote s '' ''))"

text \<open>\<^verbatim>\<open>'&'.join(l)\<close>\<close>

fun join_amp :: "string list \<Rightarrow> string" where
  "join_amp [] = []"
| "join_amp [x] = x"
| "join_amp (x # y # zs) = x @ CHR ''&'' # join_amp (y # zs)"

text \<open>
  \<^verbatim>\<open>urlencode(params)\<close> on a dict whose values are strings: one \<^verbatim>\<open>key=value\<close> field per
  item, both sides through \<^verbatim>\<open>quote_plus\<close>.
\<close>

definition urlencode :: "(string \<times> string) list \<Rightarrow> string" where
  "urlencode params = join_amp (map (\<lambda>(k, v). quote_plus k @ CHR ''='' # quote_plus v) params)"




section \<open>The session authenticator\<close>

text \<open>
  \<^verbatim>\<open>authenticate_prismhr\<close>, the same text in both servers. The request is built before the
  \<^verbatim>\<open>try\<close>, so an exception of the constructor leaves the function; everything after it is
  inside the \<^verbatim>\<open>try\<close>, whose handler returns \<^verbatim>\<open>None\<close>.
\<close>

definition auth_request :: "string \<Rightarrow> string \<Rightarrow> string \<Rightarrow> string \<Rightarrow> request" where
  "auth_request username password peo_id base_url =
     \<lparr>req_url = base_url @ ''/services/rest/login/v1/createPeoSession'',
      req_data = Some (urlencode
        [(''username'', username), (''password'', password), (''peoId'', peo_id)]),
      req_headers = [(''Content-Type'', JStr ''application/x-www-form-urlencoded''),
                     (''Accept'', JStr ''application/json'')]\<rparr>"

definition authenticate_prismhr ::
  "lib \<Rightarrow> string \<Rightarrow> string \<Rightarrow> string \<Rightarrow> string \<Rightarrow> json run" where
  "authenticate_prismhr w username password peo_id base_url =
     (let auth_req = auth_request username password peo_id base_url in
      case request_error w (req_url auth_req) of
        Some e \<Rightarrow> (Inl e, [])
      | None \<Rightarrow>
          (case urlopen w auth_req 30 of
             Inl e \<Rightarrow> (Inr JNull, [auth_req])
           | Inr body \<Rightarrow>
               (case json_loads w body of
                  Inl e \<Rightarrow> (Inr JNull, [auth_req])
                | Inr auth_result \<Rightarrow>
                    (case py_get auth_result ''errorCode'' of
                       Inl e \<Rightarrow> (Inr JNull, [auth_req])
                     | Inr code \<Rightarrow>
                         if code = JStr ''0'' then
                           (case py_get auth_result ''sessionId'' of
                              Inl e \<Rightarrow> (Inr JNull, [auth_req])
                            | Inr sid \<Rightarrow> (Inr sid, [auth_req]))
                         else (Inr JNull, [auth_req])))))"

section \<open>The relay tools\<close>

text \<open>
  Every one of the 253 definitions of a relay tool in \<^verbatim>\<open>prismhr_mcp_server.py\<close> (two of them
  also in \<^verbatim>\<open>small_prismhr_mcp_server.py\<close>) has the same body: the four
  reads of the environment, the test of the credentials, the call of the authenticator,
  the test of the token, the construction of the URL (the only part that differs), the
  request carrying the token, \<^verbatim>\<open>urlopen\<close>, \<^verbatim>\<open>json.loads\<close>, \<^verbatim>\<open>return result\<close>; all of it inside
  one \<^verbatim>\<open>try\<close> whose handler \<^verbatim>\<open>except Exception as e\<close> returns
  \<^verbatim>\<open>{"error": f"<name> failed: {e}"}\<close>. \<open>relay_body\<close> is the body of the \<^verbatim>\<open>try\<close>, with the
  construction of the URL from \<^verbatim>\<open>base_url\<close> as the parameter \<open>mk_url\<close>; \<open>relay_tool\<close> adds the
  handler with the tool's name.
\<close>

definition error_dict :: "string \<Rightarrow> json" where
  "error_dict msg = JObj [(''error'', JStr msg)]"

definition default_base_url :: string where
  "default_base_url = ''https://salesdemoapi.prismhr.com/prismhr-api''"

definition relay_body :: "lib \<Rightarrow> environ \<Rightarrow> (string \<Rightarrow> exn + string) \<Rightarrow> json run" where
  "relay_body w env mk_url =
     (let username = getenv env ''PRISMHR_USERNAME'';
          password = getenv env ''PRISMHR_PASSWORD'';
          peo_id = getenv env ''PRISMHR_PEO_ID'';
          base_url = getenv_default env ''PRISMHR_BASE_URL'' default_base_url
      in
      if \<not> py_all [username, password, peo_id] then
        (Inr (error_dict ''Missing PrismHR credentials''), [])
      else
        (case authenticate_prismhr w (the username) (the password) (the peo_id) base_url of
           (Inl e, tr) \<Rightarrow> (Inl e, tr)
         | (Inr session_id, tr) \<Rightarrow>
             if \<not> truthy session_id then (Inr (error_dict ''Authentication failed''), tr)
             else
               (case mk_url base_url of
                  Inl e \<Rightarrow> (Inl e, tr)
                | Inr full_url \<Rightarrow>
                    (case request_error w full_url of
                       Some e \<Rightarrow> (Inl e, tr)
                     | None \<Rightarrow>
                         (let req = \<lparr>req_url = full_url, req_data = None,
                                     req_headers = [(''sessionId'', session_id),
                                                    (''Accept'', JStr ''application/json'')]\<rparr>
                          in
                          case urlopen w req 30 of
                            Inl e \<Rightarrow> (Inl e, tr @ [req])
                          | Inr body \<Rightarrow>
                              (case json_loads w body of
                                 Inl e \<Rightarrow> (Inl e, tr @ [req])
                               | Inr result \<Rightarrow> (Inr result, tr @ [req])))))))"

definition relay_tool ::
  "lib \<Rightarrow> environ \<Rightarrow> string \<Rightarrow> (string \<Rightarrow> exn + string) \<Rightarrow> json run" where
  "relay_tool w env name mk_url =
     (case relay_body w env mk_url of
        (Inl e, tr) \<Rightarrow> (Inr (error_dict (name @ '' failed: '' @ str_exn e)), tr)
      | (Inr result, tr) \<Rightarrow> (Inr result, tr))"

subsection \<open>Building the parameters\<close>

text \<open>\<^verbatim>\<open>if x: params[key] = x\<close> for an optional string \<open>x\<close>.\<close>

definition set_if_truthy ::
  "(string \<times> string) list \<Rightarrow> string \<Rightarrow> string option \<Rightarrow> (string \<times> string) list" where
  "set_if_truthy params key x =
     (case x of None \<Rightarrow> params
      | Some v \<Rightarrow> if v \<noteq> [] then dict_set params key v else params)"

text \<open>\<^verbatim>\<open>str(b)\<close> of a bool and \<^verbatim>\<open>str.lower\<close> (on ASCII letters).\<close>

definition py_str_bool :: "bool \<Rightarrow> string" where
  "py_str_bool b = (if b then ''True'' else ''False'')"

definition py_lower :: "string \<Rightarrow> string" where
  "py_lower s =
     map (\<lambda>c. if 65 \<le> (of_char c :: nat) \<and> (of_char c :: nat) \<le> 90
                then char_of (of_char c + 32 :: nat) else c) s"

text \<open>\<^verbatim>\<open>if x is not None: params[key] = str(x).lower()\<close> for an optional bool \<open>x\<close>.\<close>

definition set_if_not_none_lower ::
  "(string \<times> string) list \<Rightarrow> string \<Rightarrow> bool option \<Rightarrow> (string \<times> string) list" where
  "set_if_not_none_lower params key x =
     (case x of None \<Rightarrow> params
      | Some b \<Rightarrow> dict_set params key (py_lower (py_str_bool b)))"

text \<open>The decimal text of a natural number, as an f-string formats an index.\<close>

function str_nat :: "nat \<Rightarrow> string" where
  "str_nat n =
     (if n < 10 then [''0123456789'' ! n]
      else str_nat (n div 10) @ [''0123456789'' ! (n mod 10)])"
  by pat_completeness auto
termination
  by (relation "measure id") auto

declare str_nat.simps [simp del]

text \<open>
  \<^verbatim>\<open>for i, x in enumerate(xs): params[f"key[{i}]"] = x\<close>, the loop started at index \<open>i\<close>.
\<close>

fun set_enumerated ::
  "(string \<times> string) list \<Rightarrow> string \<Rightarrow> nat \<Rightarrow> string list \<Rightarrow> (string \<times> string) list" where
  "set_enumerated params key i [] = params"
| "set_enumerated params key i (x # xs) =
     set_enumerated (dict_set params (key @ ''['' @ str_nat i @ '']'') x) key (Suc i) xs"

subsection \<open>Five tools\<close>

text \<open>
  The parameters have the types of the signatures: \<^verbatim>\<open>str\<close> is a string, \<^verbatim>\<open>Optional[str]\<close> a
  string or \<open>None\<close>, \<^verbatim>\<open>List[str]\<close> a list of strings, \<^verbatim>\<open>Optional[bool]\<close> a bool or \<open>None\<close>.
  Building the query string from values of these types raises nothing.
\<close>

text \<open>\<^verbatim>\<open>get_employee_list(client_id, status_class=None, type_class=None)\<close>\<close>

definition get_employee_list_query ::
  "string \<Rightarrow> string option \<Rightarrow> string option \<Rightarrow> string" where
  "get_employee_list_query client_id status_class type_class' =
     (let params = [(''clientId'', client_id)];
          params = set_if_truthy params ''statusClass'' status_class;
          params = set_if_truthy params ''typeClass'' type_class'
      in urlencode params)"

definition get_employee_list ::
  "lib \<Rightarrow> environ \<Rightarrow> string \<Rightarrow> string option \<Rightarrow> string option \<Rightarrow> json run" where
  "get_employee_list w env client_id status_class type_class' =
     relay_tool w env ''Get employee list'' (\<lambda>base_url.
       let url = base_url @ ''/services/rest/employee/v1/getEmployeeList'';
           query_string = get_employee_list_query client_id status_class type_class'
       in Inr (url @ ''?'' @ query_string))"

text \<open>\<^verbatim>\<open>get_employee(client_id, employee_id, options=None)\<close>\<close>

definition get_employee_query :: "string \<Rightarrow> string \<Rightarrow> string option \<Rightarrow> string" where
  "get_employee_query client_id employee_id options =
     (let params = [(''clientId'', client_id), (''employeeId'', employee_id)];
          params = set_if_truthy params ''options'' options
      in urlencode params)"

definition get_employee ::
  "lib \<Rightarrow> environ \<Rightarrow> string \<Rightarrow> string \<Rightarrow> string option \<Rightarrow> json run" where
  "get_employee w env client_id employee_id options =
     relay_tool w env ''Get employee'' (\<lambda>base_url.
       let url = base_url @ ''/services/rest/employee/v1/getEmployee'';
           query_string = get_employee_query client_id employee_id options
       in Inr (url @ ''?'' @ query_string))"



text \<open>
  \<^verbatim>\<open>get_retirement_plan(client_id, employee_id, effective_date=None, is_active: Optional[bool]=None)\<close>
\<close>

definition get_retirement_plan_query ::
  "string \<Rightarrow> string \<Rightarrow> string option \<Rightarrow> bool option \<Rightarrow> string" where
  "get_retirement_plan_query client_id employee_id effective_date is_active =
     (let params = [(''clientId'', client_id), (''employeeId'', employee_id)];
          params = set_if_truthy params ''effectiveDate'' effective_date;
          params = set_if_not_none_lower params ''isActive'' is_active
      in urlencode params)"

definition get_retirement_plan ::
  "lib \<Rightarrow> environ \<Rightarrow> string \<Rightarrow> string \<Rightarrow> string option \<Rightarrow> bool option \<Rightarrow> json run" where
  "get_retirement_plan w env client_id employee_id effective_date is_active =
     relay_tool w env ''Get retirement plan'' (\<lambda>base_url.
       let url = base_url @ ''/services/rest/benefits/v1/getRetirementPlan'';
           query_string = get_retirement_plan_query client_id employee_id effective_date is_active
       in Inr (url @ ''?'' @ query_string))"

text \<open>
  \<^verbatim>\<open>reprint_1099(client_id, employee_id: List[str], year)\<close>, which numbers the keys of the
  array by hand and encodes without \<^verbatim>\<open>doseq\<close>.
\<close>

definition reprint_1099_query :: "string \<Rightarrow> string list \<Rightarrow> string \<Rightarrow> string" where
  "reprint_1099_query client_id employee_id year =
     (let params = [(''clientId'', client_id), (''year'', year)];
          params = set_enumerated params ''employeeId'' 0 employee_id
      in urlencode params)"

definition reprint_1099 ::
  "lib \<Rightarrow> environ \<Rightarrow> string \<Rightarrow> string list \<Rightarrow> string \<Rightarrow> json run" where
  "reprint_1099 w env client_id employee_id year =
     relay_tool w env ''Reprint 1099'' (\<lambda>base_url.
       let url = base_url @ ''/services/rest/employee/v1/reprint1099'';
           query_string = reprint_1099_query client_id employee_id year
       in Inr (url @ ''?'' @ query_string))"

subsection \<open>The connection test\<close>

text \<open>
  \<^verbatim>\<open>test_connection()\<close> reads the same configuration and calls the authenticator, but issues
  no request of its own and words its results differently.
\<close>

definition test_connection_body :: "lib \<Rightarrow> environ \<Rightarrow> json run" where
  "test_connection_body w env =
     (let username = getenv env ''PRISMHR_USERNAME'';
          password = getenv env ''PRISMHR_PASSWORD'';
          peo_id = getenv env ''PRISMHR_PEO_ID'';
          base_url = getenv_default env ''PRISMHR_BASE_URL'' default_base_url
      in
      if \<not> py_all [username, password, peo_id] then
        (Inr (JObj
           [(''success'', JBool False),
            (''error'', JStr (''Missing PrismHR credentials. Please set PRISMHR_USERNAME, ''
                @ ''PRISMHR_PASSWORD, and PRISMHR_PEO_ID environment variables.'')),
            (''credentials_status'', JObj
               [(''username'', JBool (truthy_str username)),
                (''password'', JBool (truthy_str password)),
                (''peo_id'', JBool (truthy_str peo_id))])]), [])
      else
        (case authenticate_prismhr w (the username) (the password) (the peo_id) base_url of
           (Inl e, tr) \<Rightarrow> (Inl e, tr)
         | (Inr session_id, tr) \<Rightarrow>
             if truthy session_id then
               (Inr (JObj
                  [(''success'', JBool True),
                   (''message'', JStr ''Connection test successful''),
                   (''session_id'', session_id),
                   (''base_url'', JStr base_url)]), tr)
             else
               (Inr (JObj
                  [(''success'', JBool False),
                   (''error'', JStr ''Authentication failed - check credentials''),
                   (''base_url'', JStr base_url)]), tr)))"

definition test_connection :: "lib \<Rightarrow> environ \<Rightarrow> json run" where
  "test_connection w env =
     (case test_connection_body w env of
        (Inl e, tr) \<Rightarrow>
          (Inr (JObj [(''success'', JBool False),
                      (''error'', JStr (''Connection test failed: '' @ str_exn e))]), tr)
      | (Inr result, tr) \<Rightarrow> (Inr result, tr))"

subsection \<open>Calling a tool\<close>




section \<open>Reading a query string\<close>


definition field_pair :: "string \<Rightarrow> string \<times> string" where
  "field_pair f = (takeWhile (\<lambda>c. c \<noteq> CHR ''='') f, drop 1 (dropWhile (\<lambda>c. c \<noteq> CHR ''='') f))"





text \<open>What a result of the form \<^verbatim>\<open>{"error": "<description>"}\<close> is.\<close>

fun is_error_dict :: "json \<Rightarrow> bool" where
  "is_error_dict (JObj [(k, JStr msg)]) = (k = ''error'')"
| "is_error_dict j = False"

section \<open>A stubbed upstream\<close>

text \<open>
  The scenarios run the tools against test doubles: an environment with the three
  credentials, and an upstream that answers the authentication request (the one with a
  body) with one reply and every other request with another. \<open>stub_loads\<close> parses the
  bodies the scenarios use and rejects everything else, as \<^verbatim>\<open>json.loads\<close> rejects text that
  is not JSON.
\<close>

definition stub_env :: environ where
  "stub_env =
     [''PRISMHR_USERNAME'' \<mapsto> ''apiuser'', ''PRISMHR_PASSWORD'' \<mapsto> ''secret'',
      ''PRISMHR_PEO_ID'' \<mapsto> ''624*D'']"

definition auth_ok_body :: string where
  \<open>auth_ok_body = ''{"errorCode": "0", "sessionId": "abc123"}''\<close>

definition auth_empty_session_body :: string where
  \<open>auth_empty_session_body = ''{"errorCode": "0", "sessionId": ""}''\<close>

definition auth_no_session_body :: string where
  \<open>auth_no_session_body = ''{"errorCode": "0"}''\<close>

definition auth_bad_password_body :: string where
  \<open>auth_bad_password_body = ''{"errorCode": "1", "errorMessage": "bad password"}''\<close>

definition invalid_client_body :: string where
  \<open>invalid_client_body = ''{"errorCode": "1", "errorMessage": "Invalid client"}''\<close>

definition employees_body :: string where
  \<open>employees_body = ''{"employees": []}''\<close>

definition stub_loads :: "string \<Rightarrow> exn + json" where
  "stub_loads body =
     (if body = auth_ok_body then
        Inr (JObj [(''errorCode'', JStr ''0''), (''sessionId'', JStr ''abc123'')])
      else if body = auth_empty_session_body then
        Inr (JObj [(''errorCode'', JStr ''0''), (''sessionId'', JStr [])])
      else if body = auth_no_session_body then
        Inr (JObj [(''errorCode'', JStr ''0'')])
      else if body = auth_bad_password_body then
        Inr (JObj [(''errorCode'', JStr ''1''), (''errorMessage'', JStr ''bad password'')])
      else if body = invalid_client_body then
        Inr (JObj [(''errorCode'', JStr ''1''), (''errorMessage'', JStr ''Invalid client'')])
      else if body = employees_body then
        Inr (JObj [(''employees'', JArr [])])
      else Inl (JSONDecodeError ''Expecting value: line 1 column 1 (char 0)''))"

definition stub_lib :: "exn + string \<Rightarrow> exn + string \<Rightarrow> lib" where
  "stub_lib auth_reply endpoint_reply =
     \<lparr>request_error = (\<lambda>u. None),
      urlopen = (\<lambda>r t. if req_data r \<noteq> None then auth_reply else endpoint_reply),
      json_loads = stub_loads\<rparr>"

section \<open>Helper facts\<close>

lemma py_all3 [simp]:
  "py_all [a, b, c] \<longleftrightarrow> truthy_str a \<and> truthy_str b \<and> truthy_str c"
  by (simp add: py_all_def)

text \<open>The authenticator hands at most its own request to \<open>urlopen\<close>.\<close>

lemma authenticate_trace:
  "set (snd (authenticate_prismhr w u p i b)) \<subseteq> {auth_request u p i b}"
  by (auto simp: authenticate_prismhr_def Let_def split: option.splits sum.splits)

lemma stub_default_base_url:
  "getenv_default stub_env ''PRISMHR_BASE_URL'' default_base_url = default_base_url"
  by (simp add: getenv_default_def stub_env_def)

lemmas stub_bodies =
  auth_ok_body_def auth_empty_session_body_def auth_no_session_body_def
  auth_bad_password_body_def invalid_client_body_def employees_body_def

lemma stub_auth_bad_password:
  "authenticate_prismhr (stub_lib (Inr auth_bad_password_body) r) u p i b
     = (Inr JNull, [auth_request u p i b])"
  by (simp add: authenticate_prismhr_def stub_lib_def stub_loads_def stub_bodies auth_request_def)

lemma stub_auth_ok:
  "authenticate_prismhr (stub_lib (Inr auth_ok_body) r) u p i b
     = (Inr (JStr ''abc123''), [auth_request u p i b])"
  by (simp add: authenticate_prismhr_def stub_lib_def stub_loads_def stub_bodies auth_request_def)

lemma is_error_dict_error_dict [simp]: "is_error_dict (error_dict msg)"
  by (simp add: error_dict_def)

subsection \<open>Quoted text has no separator\<close>

lemma hex_digit_in: "hex_digit n \<in> set ''0123456789ABCDEF''"
  unfolding hex_digit_def by (rule nth_mem) simp

lemma hex_digit_not_sep:
  "hex_digit n \<noteq> CHR ''&''" "hex_digit n \<noteq> CHR ''=''"
  "CHR ''&'' \<noteq> hex_digit n" "CHR ''='' \<noteq> hex_digit n"
  using hex_digit_in [of n] by auto

lemma always_safe_not_sep: "always_safe c \<Longrightarrow> c \<noteq> CHR ''&'' \<and> c \<noteq> CHR ''=''"
  by (auto simp: always_safe_def)

lemma pct_no_sep: "CHR ''&'' \<notin> set (pct c)" "CHR ''='' \<notin> set (pct c)"
  by (simp_all add: pct_def hex_digit_not_sep)

lemma quote_no_sep:
  assumes "CHR ''&'' \<notin> set safe" and "CHR ''='' \<notin> set safe"
  shows "CHR ''&'' \<notin> set (quote s safe)" and "CHR ''='' \<notin> set (quote s safe)"
proof -
  have "CHR ''&'' \<notin> set (quote s safe) \<and> CHR ''='' \<notin> set (quote s safe)"
  proof (induction s)
    case Nil
    then show ?case by (simp add: quote_def)
  next
    case (Cons c cs)
    have "quote (c # cs) safe
            = (if always_safe c \<or> c \<in> set safe then [c] else pct c) @ quote cs safe"
      by (simp add: quote_def)
    with Cons assms always_safe_not_sep [of c] pct_no_sep [of c] show ?case
      by auto
  qed
  then show "CHR ''&'' \<notin> set (quote s safe)" and "CHR ''='' \<notin> set (quote s safe)"
    by simp_all
qed

lemma quote_plus_no_amp [simp]: "CHR ''&'' \<notin> set (quote_plus s)"
  using quote_no_sep(1) [of "[]" s] quote_no_sep(1) [of "'' ''" s]
  by (auto simp: quote_plus_def)

lemma quote_plus_no_eq [simp]: "CHR ''='' \<notin> set (quote_plus s)"
  using quote_no_sep(2) [of "[]" s] quote_no_sep(2) [of "'' ''" s]
  by (auto simp: quote_plus_def)

subsection \<open>Cutting a joined string\<close>





lemma takeWhile_stop:
  "\<forall>x \<in> set xs. P x \<Longrightarrow> \<not> P y \<Longrightarrow> takeWhile P (xs @ y # ys) = xs"
  by (induction xs) auto

lemma dropWhile_stop:
  "\<forall>x \<in> set xs. P x \<Longrightarrow> \<not> P y \<Longrightarrow> dropWhile P (xs @ y # ys) = y # ys"
  by (induction xs) auto

lemma field_pair_quoted [simp]:
  "field_pair (quote_plus k @ CHR ''='' # v) = (quote_plus k, v)"
proof -
  have "\<forall>x \<in> set (quote_plus k). x \<noteq> CHR ''=''"
    using quote_plus_no_eq [of k] by auto
  then show ?thesis
    by (simp add: field_pair_def takeWhile_stop dropWhile_stop)
qed





subsection \<open>Assignments to fresh keys\<close>






lemma quoted_keys [simp]:
  "quote_plus ''clientId'' = ''clientId''"
  "quote_plus ''employeeId'' = ''employeeId''"
  "quote_plus ''statusClass'' = ''statusClass''"
  "quote_plus ''typeClass'' = ''typeClass''"
  "quote_plus ''journalId'' = ''journalId''"
  "quote_plus ''effectiveDate'' = ''effectiveDate''"
  "quote_plus ''isActive'' = ''isActive''"
  "quote_plus ''year'' = ''year''"
  by code_simp+

lemma lower_bool [simp]:
  "py_lower (py_str_bool True) = ''true''" "py_lower (py_str_bool False) = ''false''"
  "quote_plus ''true'' = ''true''" "quote_plus ''false'' = ''false''"
  by code_simp+



section \<open>The session authenticator: its result\<close>

text \<open>
  Claim C1. Once the request object exists, the authenticator never raises. If the parsed
  response is an object whose \<^verbatim>\<open>errorCode\<close> is the string \<^verbatim>\<open>"0"\<close>, it returns the
  \<^verbatim>\<open>sessionId\<close> field of the response (\<^verbatim>\<open>None\<close> when the field is missing, as \<^verbatim>\<open>dict.get\<close>
  does). For any other error code, for any exception of \<^verbatim>\<open>urlopen\<close> (network, timeout,
  HTTP status) and for any failure to decode or parse the body it returns \<^verbatim>\<open>None\<close>.
\<close>

theorem authenticate_prismhr_result:
  assumes "request_error w (req_url (auth_request u p i b)) = None"
  shows "(\<forall>body kvs. urlopen w (auth_request u p i b) 30 = Inr body
             \<and> json_loads w body = Inr (JObj kvs)
             \<and> map_of kvs ''errorCode'' = Some (JStr ''0'')
            \<longrightarrow> fst (authenticate_prismhr w u p i b)
                  = Inr (case map_of kvs ''sessionId'' of None \<Rightarrow> JNull | Some sid \<Rightarrow> sid))
       \<and> (\<forall>body kvs. urlopen w (auth_request u p i b) 30 = Inr body
             \<and> json_loads w body = Inr (JObj kvs)
             \<and> map_of kvs ''errorCode'' \<noteq> Some (JStr ''0'')
            \<longrightarrow> fst (authenticate_prismhr w u p i b) = Inr JNull)
       \<and> (\<forall>e. urlopen w (auth_request u p i b) 30 = Inl e
            \<longrightarrow> fst (authenticate_prismhr w u p i b) = Inr JNull)
       \<and> (\<forall>body e. urlopen w (auth_request u p i b) 30 = Inr body \<and> json_loads w body = Inl e
            \<longrightarrow> fst (authenticate_prismhr w u p i b) = Inr JNull)
       \<and> (\<exists>tok. fst (authenticate_prismhr w u p i b) = Inr tok)"
  using assms
  by (auto simp: authenticate_prismhr_def Let_def split: option.splits sum.splits)

theorem authenticate_prismhr_result_witness:
  "fst (authenticate_prismhr (stub_lib (Inr auth_ok_body) (Inr employees_body))
          ''apiuser'' ''secret'' ''624*D'' default_base_url) = Inr (JStr ''abc123'')
   \<and> fst (authenticate_prismhr (stub_lib (Inr auth_bad_password_body) (Inr employees_body))
          ''apiuser'' ''secret'' ''624*D'' default_base_url) = Inr JNull
   \<and> fst (authenticate_prismhr (stub_lib (Inl (URLError ''<urlopen error timed out>'')) (Inr employees_body))
          ''apiuser'' ''secret'' ''624*D'' default_base_url) = Inr JNull
   \<and> fst (authenticate_prismhr (stub_lib (Inr ''<html>Bad Gateway</html>'') (Inr employees_body))
          ''apiuser'' ''secret'' ''624*D'' default_base_url) = Inr JNull"
proof -
  let ?ok = "stub_lib (Inr auth_ok_body) (Inr employees_body)"
  let ?bad = "stub_lib (Inr auth_bad_password_body) (Inr employees_body)"
  let ?net = "stub_lib (Inl (URLError ''<urlopen error timed out>'')) (Inr employees_body)"
  let ?html = "stub_lib (Inr ''<html>Bad Gateway</html>'') (Inr employees_body)"
  have a: "fst (authenticate_prismhr ?ok ''apiuser'' ''secret'' ''624*D'' default_base_url)
              = Inr (JStr ''abc123'')"
    using authenticate_prismhr_result [of ?ok "''apiuser''" "''secret''" "''624*D''" default_base_url]
    by (simp add: stub_lib_def stub_loads_def stub_bodies auth_request_def)
  have b: "fst (authenticate_prismhr ?bad ''apiuser'' ''secret'' ''624*D'' default_base_url)
              = Inr JNull"
    using authenticate_prismhr_result [of ?bad "''apiuser''" "''secret''" "''624*D''" default_base_url]
    by (simp add: stub_lib_def stub_loads_def stub_bodies auth_request_def)
  have c: "fst (authenticate_prismhr ?net ''apiuser'' ''secret'' ''624*D'' default_base_url)
              = Inr JNull"
    using authenticate_prismhr_result [of ?net "''apiuser''" "''secret''" "''624*D''" default_base_url]
    by (simp add: stub_lib_def stub_loads_def stub_bodies auth_request_def)
  have d: "fst (authenticate_prismhr ?html ''apiuser'' ''secret'' ''624*D'' default_base_url)
              = Inr JNull"
    using authenticate_prismhr_result [of ?html "''apiuser''" "''secret''" "''624*D''" default_base_url]
    by (simp add: stub_lib_def stub_loads_def stub_bodies auth_request_def)
  from a b c d show ?thesis by simp
qed

section \<open>The relay tools: credentials and authentication\<close>

text \<open>
  Claim C3. If any of the three credentials \<^verbatim>\<open>PRISMHR_USERNAME\<close>, \<^verbatim>\<open>PRISMHR_PASSWORD\<close>,
  \<^verbatim>\<open>PRISMHR_PEO_ID\<close> is absent from the environment, a relay tool (whatever its name and
  its URL) returns \<^verbatim>\<open>{"error": "Missing PrismHR credentials"}\<close> and hands no request to
  \<^verbatim>\<open>urlopen\<close>: neither the authentication request nor the request of the endpoint.
\<close>

theorem relay_missing_credentials:
  assumes "env ''PRISMHR_USERNAME'' = None \<or> env ''PRISMHR_PASSWORD'' = None
             \<or> env ''PRISMHR_PEO_ID'' = None"
  shows "relay_tool w env name mk_url = (Inr (error_dict ''Missing PrismHR credentials''), [])"
  using assms by (auto simp: relay_tool_def relay_body_def getenv_def)

theorem relay_missing_credentials_witness:
  "(stub_env(''PRISMHR_PEO_ID'' := None)) ''PRISMHR_PEO_ID'' = None
   \<and> get_employee_list (stub_lib (Inr auth_ok_body) (Inr employees_body))
         (stub_env(''PRISMHR_PEO_ID'' := None)) ''132'' None None
       = (Inr (error_dict ''Missing PrismHR credentials''), [])"
  unfolding get_employee_list_def
  using relay_missing_credentials [of "stub_env(''PRISMHR_PEO_ID'' := None)"]
  by simp

text \<open>
  Claim C2. If the credentials are present and the authenticator yields no token
  (\<^verbatim>\<open>None\<close>, or any other value that is false in Python), a relay tool returns exactly
  \<^verbatim>\<open>{"error": "Authentication failed"}\<close>, and the only request that may have reached
  \<^verbatim>\<open>urlopen\<close> is the authentication request: the request of the endpoint is never issued.
\<close>

theorem relay_authentication_failed:
  assumes "env ''PRISMHR_USERNAME'' = Some u" and "u \<noteq> []"
    and "env ''PRISMHR_PASSWORD'' = Some p" and "p \<noteq> []"
    and "env ''PRISMHR_PEO_ID'' = Some i" and "i \<noteq> []"
    and "authenticate_prismhr w u p i (getenv_default env ''PRISMHR_BASE_URL'' default_base_url)
           = (Inr tok, tr)"
    and "\<not> truthy tok"
  shows "relay_tool w env name mk_url = (Inr (error_dict ''Authentication failed''), tr)
         \<and> set tr \<subseteq> {auth_request u p i (getenv_default env ''PRISMHR_BASE_URL'' default_base_url)}"
proof -
  have "set tr \<subseteq> {auth_request u p i (getenv_default env ''PRISMHR_BASE_URL'' default_base_url)}"
    using authenticate_trace [of w u p i "getenv_default env ''PRISMHR_BASE_URL'' default_base_url"] assms(7)
    by simp
  moreover have "relay_tool w env name mk_url = (Inr (error_dict ''Authentication failed''), tr)"
    using assms by (simp add: relay_tool_def relay_body_def getenv_def)
  ultimately show ?thesis by simp
qed

theorem relay_authentication_failed_witness:
  "get_employee_list (stub_lib (Inr auth_bad_password_body) (Inr employees_body)) stub_env
       ''132'' None None
     = (Inr (error_dict ''Authentication failed''),
        [auth_request ''apiuser'' ''secret'' ''624*D'' default_base_url])"
proof -
  have auth: "authenticate_prismhr (stub_lib (Inr auth_bad_password_body) (Inr employees_body))
        ''apiuser'' ''secret'' ''624*D''
        (getenv_default stub_env ''PRISMHR_BASE_URL'' default_base_url)
      = (Inr JNull, [auth_request ''apiuser'' ''secret'' ''624*D'' default_base_url])"
    by (simp add: stub_auth_bad_password stub_default_base_url)
  show ?thesis
    unfolding get_employee_list_def
    using relay_authentication_failed [OF _ _ _ _ _ _ auth]
    by (simp add: stub_env_def)
qed

text \<open>
  Claim C9. A response to the authentication request whose \<^verbatim>\<open>errorCode\<close> is \<^verbatim>\<open>"0"\<close> but
  which has no \<^verbatim>\<open>sessionId\<close>, or an empty one, is an authentication failure: the
  authenticator returns \<^verbatim>\<open>None\<close> or the empty string, the tool returns
  \<^verbatim>\<open>{"error": "Authentication failed"}\<close>, and the authentication request is the only one
  issued.
\<close>

theorem relay_session_id_missing_or_empty:
  assumes "env ''PRISMHR_USERNAME'' = Some u" and "u \<noteq> []"
    and "env ''PRISMHR_PASSWORD'' = Some p" and "p \<noteq> []"
    and "env ''PRISMHR_PEO_ID'' = Some i" and "i \<noteq> []"
    and "base_url = getenv_default env ''PRISMHR_BASE_URL'' default_base_url"
    and "request_error w (req_url (auth_request u p i base_url)) = None"
    and "urlopen w (auth_request u p i base_url) 30 = Inr body"
    and "json_loads w body = Inr (JObj kvs)"
    and "map_of kvs ''errorCode'' = Some (JStr ''0'')"
    and "map_of kvs ''sessionId'' = None \<or> map_of kvs ''sessionId'' = Some (JStr [])"
  shows "fst (authenticate_prismhr w u p i base_url) \<in> {Inr JNull, Inr (JStr [])}
         \<and> relay_tool w env name mk_url
             = (Inr (error_dict ''Authentication failed''), [auth_request u p i base_url])"
  using assms
  by (auto simp: relay_tool_def relay_body_def getenv_def authenticate_prismhr_def Let_def)

theorem relay_session_id_missing_or_empty_witness:
  "get_employee_list (stub_lib (Inr auth_no_session_body) (Inr employees_body)) stub_env
       ''132'' None None
     = (Inr (error_dict ''Authentication failed''),
        [auth_request ''apiuser'' ''secret'' ''624*D'' default_base_url])
   \<and> get_employee_list (stub_lib (Inr auth_empty_session_body) (Inr employees_body)) stub_env
       ''132'' None None
     = (Inr (error_dict ''Authentication failed''),
        [auth_request ''apiuser'' ''secret'' ''624*D'' default_base_url])"
proof -
  have a: "get_employee_list (stub_lib (Inr auth_no_session_body) (Inr employees_body)) stub_env
       ''132'' None None
     = (Inr (error_dict ''Authentication failed''),
        [auth_request ''apiuser'' ''secret'' ''624*D'' default_base_url])"
    unfolding get_employee_list_def
    using relay_session_id_missing_or_empty
      [where env = stub_env and u = "''apiuser''" and p = "''secret''" and i = "''624*D''"
         and w = "stub_lib (Inr auth_no_session_body) (Inr employees_body)"
         and body = auth_no_session_body and kvs = "[(''errorCode'', JStr ''0'')]",
       OF _ _ _ _ _ _ refl]
    by (simp add: stub_env_def stub_lib_def stub_loads_def stub_bodies auth_request_def
          stub_default_base_url [unfolded stub_env_def])
  have b: "get_employee_list (stub_lib (Inr auth_empty_session_body) (Inr employees_body)) stub_env
       ''132'' None None
     = (Inr (error_dict ''Authentication failed''),
        [auth_request ''apiuser'' ''secret'' ''624*D'' default_base_url])"
    unfolding get_employee_list_def
    using relay_session_id_missing_or_empty
      [where env = stub_env and u = "''apiuser''" and p = "''secret''" and i = "''624*D''"
         and w = "stub_lib (Inr auth_empty_session_body) (Inr employees_body)"
         and body = auth_empty_session_body
         and kvs = "[(''errorCode'', JStr ''0''), (''sessionId'', JStr [])]",
       OF _ _ _ _ _ _ refl]
    by (simp add: stub_env_def stub_lib_def stub_loads_def stub_bodies auth_request_def
          stub_default_base_url [unfolded stub_env_def])
  from a b show ?thesis by simp
qed

text \<open>
  Claim C10. A credential variable set to the empty string is treated as an unset one:
  the relay tool returns \<^verbatim>\<open>{"error": "Missing PrismHR credentials"}\<close> without any request,
  which is its result with the variable unset; the connection test, too, cannot tell the
  two apart. Presence is tested by truth value.
\<close>

theorem relay_empty_credential:
  assumes "k \<in> {''PRISMHR_USERNAME'', ''PRISMHR_PASSWORD'', ''PRISMHR_PEO_ID''}"
  shows "relay_tool w (env(k \<mapsto> [])) name mk_url
           = (Inr (error_dict ''Missing PrismHR credentials''), [])
         \<and> relay_tool w (env(k \<mapsto> [])) name mk_url = relay_tool w (env(k := None)) name mk_url
         \<and> test_connection w (env(k \<mapsto> [])) = test_connection w (env(k := None))"
  using assms
  by (auto simp: relay_tool_def relay_body_def test_connection_def test_connection_body_def
        getenv_def getenv_default_def)

theorem relay_empty_credential_witness:
  "get_employee_list (stub_lib (Inr auth_ok_body) (Inr employees_body))
       (stub_env(''PRISMHR_PASSWORD'' \<mapsto> [])) ''132'' None None
     = (Inr (error_dict ''Missing PrismHR credentials''), [])
   \<and> get_employee_list (stub_lib (Inr auth_ok_body) (Inr employees_body))
       (stub_env(''PRISMHR_PASSWORD'' \<mapsto> [])) ''132'' None None
     = get_employee_list (stub_lib (Inr auth_ok_body) (Inr employees_body))
       (stub_env(''PRISMHR_PASSWORD'' := None)) ''132'' None None"
  unfolding get_employee_list_def
  using relay_empty_credential [where k = "''PRISMHR_PASSWORD''" and env = stub_env
      and w = "stub_lib (Inr auth_ok_body) (Inr employees_body)" and name = "''Get employee list''"]
  by blast

section \<open>The relay tools: the result of a successful call\<close>

text \<open>
  Claim C5. When the credentials are present, the authenticator yields a token and the
  upstream answers the request of the endpoint with a body that parses, a relay tool
  returns the parsed body as it is, whatever its shape. The scenario of the specification
  is the instance below it: authentication answered by
  \<^verbatim>\<open>{"errorCode": "0", "sessionId": "abc123"}\<close>, \<^verbatim>\<open>getEmployeeList\<close> by \<^verbatim>\<open>{"employees": []}\<close>,
  and \<^verbatim>\<open>get_employee_list(client_id="132")\<close> returns \<^verbatim>\<open>{"employees": []}\<close>.
\<close>

theorem relay_returns_parsed_body:
  assumes "env ''PRISMHR_USERNAME'' = Some u" and "u \<noteq> []"
    and "env ''PRISMHR_PASSWORD'' = Some p" and "p \<noteq> []"
    and "env ''PRISMHR_PEO_ID'' = Some i" and "i \<noteq> []"
    and "base_url = getenv_default env ''PRISMHR_BASE_URL'' default_base_url"
    and "authenticate_prismhr w u p i base_url = (Inr tok, tr)"
    and "truthy tok"
    and "mk_url base_url = Inr full_url"
    and "request_error w full_url = None"
    and "urlopen w \<lparr>req_url = full_url, req_data = None,
                     req_headers = [(''sessionId'', tok), (''Accept'', JStr ''application/json'')]\<rparr> 30
           = Inr body"
    and "json_loads w body = Inr result"
  shows "fst (relay_tool w env name mk_url) = Inr result"
  using assms by (simp add: relay_tool_def relay_body_def getenv_def)

theorem relay_returns_parsed_body_witness:
  "fst (get_employee_list (stub_lib (Inr auth_ok_body) (Inr employees_body)) stub_env
          ''132'' None None)
     = Inr (JObj [(''employees'', JArr [])])"
  unfolding get_employee_list_def
  by (rule relay_returns_parsed_body
        [where u = "''apiuser''" and p = "''secret''" and i = "''624*D''"
           and tok = "JStr ''abc123''" and body = employees_body,
         OF _ _ _ _ _ _ refl stub_auth_ok])
     (simp_all add: stub_env_def stub_lib_def stub_loads_def stub_bodies Let_def)

section \<open>The relay tools: failures\<close>





section \<open>The relay tools: the query string\<close>







section \<open>The relay tools: required parameters\<close>




end
